theory Spec2Isabelle
  imports Main
begin

section \<open>Tables as pandas holds them\<close>

text \<open>
  The notebook \<^verbatim>\<open>vbo_sandbox.ipynb\<close> defines \<^verbatim>\<open>merge(df, term_to_obsolete,
  term_to_merge_into, issue=1)\<close> over a pandas DataFrame read from a tab-separated file.
  A cell of such a table is a string, the missing value NaN (an empty field), or a
  number; floating-point numbers other than NaN are left out. A row is a dictionary from
  column names to cells, a table is its header (the ordered column names) and its rows in
  order. The row labels (the index) are not modelled: \<^verbatim>\<open>merge\<close> never reads them and
  the driver writes the result with \<^verbatim>\<open>index=False\<close>. The two ids are strings, as in
  the notebook's call, and \<^verbatim>\<open>issue\<close> is a Python integer.
\<close>

datatype cell = Str string | NaN | Num int

datatype error = KeyError | IndexError | TypeError

type_synonym row = "string \<rightharpoonup> cell"

type_synonym series = "cell list"

record dataframe =
  columns :: "string list"
  rows :: "row list"

text \<open>
  A well-formed table has distinct column names, as \<^verbatim>\<open>read_csv\<close> guarantees, and each
  row has a cell for exactly the columns of the header.
\<close>

definition wf_df :: "dataframe \<Rightarrow> bool" where
  "wf_df df \<longleftrightarrow> distinct (columns df) \<and> list_all (\<lambda>r. dom r = set (columns df)) (rows df)"

definition cell_at :: "row \<Rightarrow> string \<Rightarrow> cell" where
  "cell_at r c = (case r c of Some v \<Rightarrow> v | None \<Rightarrow> NaN)"

subsection \<open>The pandas operations that merge uses\<close>

text \<open>\<^verbatim>\<open>df[c]\<close>: the column as a series, KeyError when the header has no such column.\<close>

definition getitem :: "dataframe \<Rightarrow> string \<Rightarrow> error + series" where
  "getitem df c =
     (if c \<in> set (columns df) then Inr (map (\<lambda>r. cell_at r c) (rows df)) else Inl KeyError)"

text \<open>\<^verbatim>\<open>s == x\<close> for a string \<open>x\<close>: the element-wise comparison, a boolean mask.\<close>

definition series_eq :: "series \<Rightarrow> string \<Rightarrow> bool list" where
  "series_eq s x = map (\<lambda>v. v = Str x) s"

text \<open>
  \<^verbatim>\<open>df[mask]\<close> for a mask computed from \<open>df\<close> itself: the rows at which the mask is
  true, all of them, in table order.
\<close>

definition getitem_mask :: "dataframe \<Rightarrow> bool list \<Rightarrow> dataframe" where
  "getitem_mask df msk = df\<lparr>rows := map snd (filter fst (zip msk (rows df)))\<rparr>"

text \<open>\<^verbatim>\<open>s.values[0]\<close>: IndexError on an empty series.\<close>

definition values0 :: "series \<Rightarrow> error + cell" where
  "values0 s = (case s of [] \<Rightarrow> Inl IndexError | v # _ \<Rightarrow> Inr v)"

text \<open>
  \<^verbatim>\<open>df[c] = v\<close> for a scalar \<open>v\<close>: every row gets \<open>v\<close> in column \<open>c\<close>; a column that
  the header does not have is appended to it. No KeyError is possible here.
\<close>

definition add_column :: "string list \<Rightarrow> string \<Rightarrow> string list" where
  "add_column cols c = (if c \<in> set cols then cols else cols @ [c])"

definition setitem :: "dataframe \<Rightarrow> string \<Rightarrow> cell \<Rightarrow> dataframe" where
  "setitem df c v =
     \<lparr>columns = add_column (columns df) c, rows = map (\<lambda>r. r(c \<mapsto> v)) (rows df)\<rparr>"

text \<open>\<^verbatim>\<open>df[c] = s\<close> for a series \<open>s\<close> computed from \<open>df\<close> itself (same row labels).\<close>

definition setitem_series :: "dataframe \<Rightarrow> string \<Rightarrow> series \<Rightarrow> dataframe" where
  "setitem_series df c s =
     \<lparr>columns = add_column (columns df) c,
      rows = map (\<lambda>(r, v). r(c \<mapsto> v)) (zip (rows df) s)\<rparr>"

text \<open>
  \<^verbatim>\<open>p + s\<close> for a string \<open>p\<close> and a series \<open>s\<close> of object dtype, which is what a column
  holding text has: the strings are prefixed, NaN stays NaN, and a number among the cells
  raises TypeError. (A column without any text has a numeric dtype, where the addition
  raises TypeError whatever the cells are; the results below that say \<^verbatim>\<open>merge\<close> returns
  a table all require the labels it prefixes to be strings.)
\<close>

definition is_num :: "cell \<Rightarrow> bool" where
  "is_num v = (case v of Num _ \<Rightarrow> True | _ \<Rightarrow> False)"

definition prefix_cell :: "string \<Rightarrow> cell \<Rightarrow> cell" where
  "prefix_cell p v = (case v of Str x \<Rightarrow> Str (p @ x) | _ \<Rightarrow> v)"

definition radd_str :: "string \<Rightarrow> series \<Rightarrow> error + series" where
  "radd_str p s = (if list_ex is_num s then Inl TypeError else Inr (map (prefix_cell p) s))"

text \<open>
  \<^verbatim>\<open>pd.concat(frames)\<close>: the header is the union of the headers in order of first
  appearance, the rows follow frame by frame, and a row gets NaN in every column its own
  frame does not have. The cells are returned as they are. That is what pandas does when
  the frames hold a column at the same dtype, or when one of them holds it as text (object
  dtype). When the frames hold a column at different numeric dtypes, an integer column
  against a column of NaN or a column that is missing, pandas converts the integers to
  floating point, which this model does not do. The frames \<^verbatim>\<open>merge\<close> concatenates come
  from one table and differ only in the columns assigned to; all assigned values are
  strings except the label copied into \<^verbatim>\<open>replacement_label\<close>. So the conversion can
  only occur when that label is not a string, and the results below that describe the
  returned rows all require the label of the replacement row to be a string.
\<close>

definition union_columns :: "string list list \<Rightarrow> string list" where
  "union_columns css = fold (\<lambda>cs acc. acc @ filter (\<lambda>c. c \<notin> set acc) cs) css []"

definition reindex :: "string list \<Rightarrow> row \<Rightarrow> row" where
  "reindex cols r = (\<lambda>c. if c \<in> set cols then Some (cell_at r c) else None)"

definition concat_df :: "dataframe list \<Rightarrow> dataframe" where
  "concat_df frames =
     (let cols = union_columns (map columns frames)
      in \<lparr>columns = cols, rows = concat (map (\<lambda>f. map (reindex cols) (rows f)) frames)\<rparr>)"

subsection \<open>Formatting the issue number\<close>

text \<open>\<^verbatim>\<open>"{issue}".format(issue=issue)\<close> writes a Python integer in decimal.\<close>

definition digit_char :: "nat \<Rightarrow> char" where
  "digit_char n = ''0123456789'' ! n"

fun str_nat :: "nat \<Rightarrow> string" where
  "str_nat n = (if n < 10 then [digit_char n] else str_nat (n div 10) @ [digit_char (n mod 10)])"

declare str_nat.simps [simp del]

definition str_int :: "int \<Rightarrow> string" where
  "str_int i = (if i < 0 then CHR ''-'' # str_nat (nat (- i)) else str_nat (nat i))"

definition issue_url :: "int \<Rightarrow> string" where
  "issue_url issue =
     ''https://github.com/monarch-initiative/vertebrate-breed-ontology/issues/'' @ str_int issue"

section \<open>Objects and references\<close>

text \<open>
  A DataFrame is a mutable object. The store is the list of the objects allocated so
  far, a reference is a position in it. A statement takes the store and returns a value
  or the raised error, with the store it leaves behind.
\<close>

type_synonym ref = nat

type_synonym heap = "dataframe list"

type_synonym 'a st = "heap \<Rightarrow> (error + 'a) \<times> heap"

definition return_st :: "'a \<Rightarrow> 'a st" where
  "return_st x = (\<lambda>h. (Inr x, h))"

definition bind_st :: "'a st \<Rightarrow> ('a \<Rightarrow> 'b st) \<Rightarrow> 'b st" where
  "bind_st m f = (\<lambda>h. case m h of (Inl e, h') \<Rightarrow> (Inl e, h') | (Inr x, h') \<Rightarrow> f x h')"

definition lift_st :: "error + 'a \<Rightarrow> 'a st" where
  "lift_st r = (\<lambda>h. (r, h))"

definition get_df :: "ref \<Rightarrow> dataframe st" where
  "get_df p = (\<lambda>h. (Inr (h ! p), h))"

definition new_df :: "dataframe \<Rightarrow> ref st" where
  "new_df d = (\<lambda>h. (Inr (length h), h @ [d]))"

definition mutate :: "ref \<Rightarrow> (dataframe \<Rightarrow> dataframe) \<Rightarrow> unit st" where
  "mutate p f = (\<lambda>h. (Inr (), h[p := f (h ! p)]))"

text \<open>\<^verbatim>\<open>p.copy()\<close>: a new object with the same contents.\<close>

definition copy_df :: "ref \<Rightarrow> ref st" where
  "copy_df p = bind_st (get_df p) new_df"

text \<open>
  \<^verbatim>\<open>df[df["vbo_id"] == x]\<close>: selecting with a boolean mask gives a new object, never a
  view of \<open>df\<close>.
\<close>

definition select_vbo_id :: "ref \<Rightarrow> string \<Rightarrow> ref st" where
  "select_vbo_id df x =
     bind_st (get_df df) (\<lambda>d.
     bind_st (lift_st (getitem d ''vbo_id'')) (\<lambda>ids.
     new_df (getitem_mask d (series_eq ids x))))"

text \<open>\<^verbatim>\<open>p[c] = v\<close> changes the object \<open>p\<close> refers to, in place.\<close>

definition setitem_st :: "ref \<Rightarrow> string \<Rightarrow> cell \<Rightarrow> unit st" where
  "setitem_st p c v = mutate p (\<lambda>d. setitem d c v)"

text \<open>\<^verbatim>\<open>p["term_label"].values[0]\<close>\<close>

definition first_label :: "ref \<Rightarrow> cell st" where
  "first_label p =
     bind_st (get_df p) (\<lambda>d.
     bind_st (lift_st (getitem d ''term_label'')) (\<lambda>s.
     lift_st (values0 s)))"

fun for_each :: "'a list \<Rightarrow> ('a \<Rightarrow> unit st) \<Rightarrow> unit st" where
  "for_each [] body = return_st ()"
| "for_each (x # xs) body = bind_st (body x) (\<lambda>_. for_each xs body)"

section \<open>merge\<close>

definition list_of_columns_to_keep :: "string list" where
  "list_of_columns_to_keep = [''term_label'', ''vbo_id'', ''contributor'']"

text \<open>
  The loop over \<^verbatim>\<open>df_term_to_obsolete.columns\<close> that blanks every column not kept.
\<close>

definition blank_columns :: "ref \<Rightarrow> unit st" where
  "blank_columns p =
     bind_st (get_df p) (\<lambda>d.
     for_each (columns d) (\<lambda>column.
       if column \<notin> set list_of_columns_to_keep then setitem_st p column (Str '''')
       else return_st ()))"

text \<open>
  \<^verbatim>\<open>p['term_label'] = "obsolete " + p['term_label']\<close>
\<close>

definition prefix_label :: "ref \<Rightarrow> unit st" where
  "prefix_label p =
     bind_st (get_df p) (\<lambda>d.
     bind_st (lift_st (getitem d ''term_label'')) (\<lambda>s.
     bind_st (lift_st (radd_str ''obsolete '' s)) (\<lambda>s'.
     mutate p (\<lambda>d'. setitem_series d' ''term_label'' s'))))"

text \<open>\<^verbatim>\<open>pd.concat([a, b, c])\<close>: a new object.\<close>

definition concat_st :: "ref list \<Rightarrow> ref st" where
  "concat_st ps = (\<lambda>h. new_df (concat_df (map (\<lambda>p. h ! p) ps)) h)"

text \<open>The body of \<^verbatim>\<open>merge\<close>, statement by statement.\<close>

definition merge_st :: "ref \<Rightarrow> string \<Rightarrow> string \<Rightarrow> int \<Rightarrow> ref st" where
  "merge_st df term_to_obsolete term_to_merge_into issue =
     bind_st (select_vbo_id df term_to_merge_into) (\<lambda>sel1.
     bind_st (copy_df sel1) (\<lambda>df_term_to_merge_into.
     bind_st (select_vbo_id df term_to_obsolete) (\<lambda>sel2.
     bind_st (copy_df sel2) (\<lambda>df_term_to_obsolete.
     bind_st (copy_df df_term_to_obsolete) (\<lambda>df_term_to_obsolete2.
     bind_st (first_label df_term_to_merge_into) (\<lambda>term_to_merge_into_label.
     bind_st (first_label df_term_to_obsolete) (\<lambda>term_to_obsolete_label.
     bind_st (blank_columns df_term_to_obsolete) (\<lambda>_.
     bind_st (prefix_label df_term_to_obsolete) (\<lambda>_.
     bind_st (setitem_st df_term_to_obsolete ''obsoletion_type'' (Str ''owl:Class'')) (\<lambda>_.
     bind_st (setitem_st df_term_to_obsolete ''obsolete'' (Str ''true'')) (\<lambda>_.
     bind_st (setitem_st df_term_to_obsolete ''contributors'' (Str '''')) (\<lambda>_.
     bind_st (setitem_st df_term_to_obsolete ''replacement_term'' (Str term_to_merge_into)) (\<lambda>_.
     bind_st (setitem_st df_term_to_obsolete ''replacement_label'' term_to_merge_into_label) (\<lambda>_.
     bind_st (setitem_st df_term_to_obsolete ''obsolescence_reason'' (Str ''terms merged'')) (\<lambda>_.
     bind_st (setitem_st df_term_to_obsolete ''GH_issue'' (Str (issue_url issue))) (\<lambda>_.
     bind_st (setitem_st df_term_to_obsolete2 ''vbo_id'' (Str term_to_merge_into)) (\<lambda>_.
     bind_st (setitem_st df_term_to_obsolete2 ''term_label'' (Str '''')) (\<lambda>_.
     bind_st (setitem_st df_term_to_obsolete2 ''synonym_label_from_merged_term'' term_to_obsolete_label) (\<lambda>_.
     bind_st (setitem_st df_term_to_obsolete2 ''source_for_merged_term'' (Str term_to_obsolete)) (\<lambda>_.
     bind_st (setitem_st df_term_to_obsolete2 ''synonym_type_most_common_name'' (Str '''')) (\<lambda>_.
     bind_st (setitem_st df_term_to_obsolete2 ''GH_issue'' (Str (issue_url issue))) (\<lambda>_.
     concat_st [df_term_to_obsolete, df_term_to_obsolete2, df_term_to_merge_into]
     ))))))))))))))))))))))"

text \<open>
  What a caller of \<^verbatim>\<open>merge(df, ...)\<close> sees: the table returned, or the error raised.
  The table \<open>df\<close> is the only object there is before the call.
\<close>

definition merge :: "dataframe \<Rightarrow> string \<Rightarrow> string \<Rightarrow> int \<Rightarrow> error + dataframe" where
  "merge df term_to_obsolete term_to_merge_into issue =
     (case merge_st 0 term_to_obsolete term_to_merge_into issue [df] of
        (Inl e, h) \<Rightarrow> Inl e
      | (Inr p, h) \<Rightarrow> Inr (h ! p))"

section \<open>The rows of the result in closed form\<close>

text \<open>
  The rows of a table whose \<^verbatim>\<open>vbo_id\<close> is the string \<open>x\<close>, in table order: what the
  boolean mask selects.
\<close>

definition matching :: "dataframe \<Rightarrow> string \<Rightarrow> row list" where
  "matching df x = filter (\<lambda>r. r ''vbo_id'' = Some (Str x)) (rows df)"

text \<open>What the blanking loop leaves of one row of a table with header \<open>cols\<close>.\<close>

definition blank_row :: "string list \<Rightarrow> row \<Rightarrow> row" where
  "blank_row cols r =
     (\<lambda>c. if c \<in> set cols \<and> c \<notin> set list_of_columns_to_keep then Some (Str '''') else r c)"

text \<open>
  What the assignments to \<^verbatim>\<open>df_term_to_obsolete\<close> make of one selected row \<open>r\<close>, where
  \<open>lm\<close> is the label read from the first row selected for the replacement id.
\<close>

definition obsoletion_row :: "string list \<Rightarrow> string \<Rightarrow> cell \<Rightarrow> int \<Rightarrow> row \<Rightarrow> row" where
  "obsoletion_row cols term_to_merge_into lm issue r =
     (blank_row cols r)
       (''term_label'' \<mapsto> prefix_cell ''obsolete '' (cell_at r ''term_label''),
        ''obsoletion_type'' \<mapsto> Str ''owl:Class'',
        ''obsolete'' \<mapsto> Str ''true'',
        ''contributors'' \<mapsto> Str '''',
        ''replacement_term'' \<mapsto> Str term_to_merge_into,
        ''replacement_label'' \<mapsto> lm,
        ''obsolescence_reason'' \<mapsto> Str ''terms merged'',
        ''GH_issue'' \<mapsto> Str (issue_url issue))"

text \<open>
  What the assignments to \<^verbatim>\<open>df_term_to_obsolete2\<close> make of one selected row \<open>r\<close>, where
  \<open>lo\<close> is the label read from the first row selected for the obsolete id.
\<close>

definition synonym_row :: "string \<Rightarrow> string \<Rightarrow> cell \<Rightarrow> int \<Rightarrow> row \<Rightarrow> row" where
  "synonym_row term_to_obsolete term_to_merge_into lo issue r =
     r(''vbo_id'' \<mapsto> Str term_to_merge_into,
       ''term_label'' \<mapsto> Str '''',
       ''synonym_label_from_merged_term'' \<mapsto> lo,
       ''source_for_merged_term'' \<mapsto> Str term_to_obsolete,
       ''synonym_type_most_common_name'' \<mapsto> Str '''',
       ''GH_issue'' \<mapsto> Str (issue_url issue))"

text \<open>The headers of the two derived tables: a column assigned to is appended if new.\<close>

definition obsoletion_columns :: "string list \<Rightarrow> string list" where
  "obsoletion_columns cols =
     fold (\<lambda>c cs. add_column cs c)
       [''term_label'', ''obsoletion_type'', ''obsolete'', ''contributors'', ''replacement_term'',
        ''replacement_label'', ''obsolescence_reason'', ''GH_issue''] cols"

definition synonym_columns :: "string list \<Rightarrow> string list" where
  "synonym_columns cols =
     fold (\<lambda>c cs. add_column cs c)
       [''vbo_id'', ''term_label'', ''synonym_label_from_merged_term'', ''source_for_merged_term'',
        ''synonym_type_most_common_name'', ''GH_issue''] cols"

definition result_columns :: "string list \<Rightarrow> string list" where
  "result_columns cols = union_columns [obsoletion_columns cols, synonym_columns cols, cols]"

text \<open>The columns that \<^verbatim>\<open>merge\<close> assigns to, in the order of their first assignment.\<close>

definition assigned_columns :: "string list" where
  "assigned_columns =
     [''term_label'', ''obsoletion_type'', ''obsolete'', ''contributors'', ''replacement_term'',
      ''replacement_label'', ''obsolescence_reason'', ''GH_issue'', ''vbo_id'',
      ''synonym_label_from_merged_term'', ''source_for_merged_term'',
      ''synonym_type_most_common_name'']"

section \<open>An example table\<close>

text \<open>
  A table with the columns the notebook expects and one more descriptive column, holding
  the two terms of the notebook's call and a third, unrelated term. A row is written as
  the list of its cells in header order.
\<close>

definition row_of :: "string list \<Rightarrow> cell list \<Rightarrow> row" where
  "row_of cols vals = map_of (zip cols vals)"

definition example_columns :: "string list" where
  "example_columns =
     [''vbo_id'', ''term_label'', ''contributor'', ''comment'', ''obsoletion_type'', ''obsolete'',
      ''contributors'', ''replacement_term'', ''replacement_label'', ''obsolescence_reason'',
      ''GH_issue'', ''synonym_label_from_merged_term'', ''source_for_merged_term'',
      ''synonym_type_most_common_name'']"

definition example_obsolete_row :: row where
  "example_obsolete_row = row_of example_columns
     [Str ''VBO:0200238'', Str ''Foo'', Str ''ORCID:1'', Str ''a dog breed'', NaN, NaN,
      Str ''ORCID:3'', NaN, NaN, NaN, NaN, NaN, NaN, Str ''breed name'']"

definition example_replacement_row :: row where
  "example_replacement_row = row_of example_columns
     [Str ''VBO:0200239'', Str ''Bar'', Str ''ORCID:2'', Num 7, NaN, NaN,
      NaN, NaN, NaN, NaN, NaN, NaN, NaN, NaN]"

definition example_other_row :: row where
  "example_other_row = row_of example_columns
     [Str ''VBO:0200240'', Str ''Baz'', NaN, NaN, NaN, NaN,
      NaN, NaN, NaN, NaN, NaN, NaN, NaN, NaN]"

definition example_table :: dataframe where
  "example_table =
     \<lparr>columns = example_columns,
      rows = [example_other_row, example_obsolete_row, example_replacement_row]\<rparr>"

text \<open>A second row for the obsolete id, with a label of its own.\<close>

definition example_duplicate_row :: row where
  "example_duplicate_row = row_of example_columns
     [Str ''VBO:0200238'', Str ''Foo again'', NaN, NaN, NaN, NaN,
      NaN, NaN, NaN, NaN, NaN, NaN, NaN, NaN]"

definition duplicate_table :: dataframe where
  "duplicate_table =
     \<lparr>columns = example_columns,
      rows = [example_obsolete_row, example_replacement_row, example_duplicate_row]\<rparr>"

text \<open>Tables with two columns only: one has the two columns merge reads, one has no labels.\<close>

definition two_column_table :: dataframe where
  "two_column_table =
     \<lparr>columns = [''vbo_id'', ''term_label''],
      rows = [row_of [''vbo_id'', ''term_label''] [Str ''VBO:0200238'', Str ''Foo''],
              row_of [''vbo_id'', ''term_label''] [Str ''VBO:0200239'', Str ''Bar'']]\<rparr>"

definition no_label_table :: dataframe where
  "no_label_table =
     \<lparr>columns = [''vbo_id'', ''contributor''],
      rows = [row_of [''vbo_id'', ''contributor''] [Str ''VBO:0200238'', NaN],
              row_of [''vbo_id'', ''contributor''] [Str ''VBO:0200239'', NaN]]\<rparr>"

section \<open>Running the statements\<close>

lemma for_each_blank:
  "p < length h \<Longrightarrow>
   for_each cs (\<lambda>column. if column \<notin> set list_of_columns_to_keep then setitem_st p column v
                          else return_st ()) h =
   (Inr (), h[p := fold (\<lambda>column d. if column \<notin> set list_of_columns_to_keep then setitem d column v else d) cs (h ! p)])"
proof (induction cs arbitrary: h)
  case Nil
  then show ?case by (simp add: return_st_def)
next
  case (Cons c cs)
  then show ?case
    by (simp add: bind_st_def setitem_st_def mutate_def return_st_def)
qed

lemmas st_defs = bind_st_def return_st_def lift_st_def get_df_def new_df_def mutate_def copy_df_def
  select_vbo_id_def setitem_st_def first_label_def prefix_label_def concat_st_def blank_columns_def

lemma mask_filter: "map snd (filter fst (zip (map p xs) xs)) = filter p xs"
  by (induction xs) auto

lemma select_rows:
  assumes "''vbo_id'' \<in> set (columns df)" and "getitem df ''vbo_id'' = Inr ids"
  shows "getitem_mask df (series_eq ids x) = \<lparr>columns = columns df, rows = matching df x\<rparr>"
proof -
  from assms have ids: "ids = map (\<lambda>r. cell_at r ''vbo_id'') (rows df)"
    by (simp add: getitem_def)
  have "(cell_at r ''vbo_id'' = Str x) = (r ''vbo_id'' = Some (Str x))" for r
    by (simp add: cell_at_def split: option.splits)
  then have "series_eq ids x = map (\<lambda>r. r ''vbo_id'' = Some (Str x)) (rows df)"
    by (simp add: series_eq_def ids)
  then show ?thesis
    by (simp add: getitem_mask_def matching_def mask_filter)
qed

lemma fold_blank:
  "set cs \<subseteq> set (columns d) \<Longrightarrow>
   fold (\<lambda>column d. if column \<notin> set list_of_columns_to_keep then setitem d column (Str '''') else d) cs d
   = \<lparr>columns = columns d, rows = map (blank_row cs) (rows d)\<rparr>"
proof (induction cs arbitrary: d)
  case Nil
  have "blank_row [] = (\<lambda>r. r)" by (simp add: blank_row_def fun_eq_iff)
  then show ?case by simp
next
  case (Cons c cs)
  have eq: "c \<notin> set list_of_columns_to_keep \<Longrightarrow> blank_row cs (r(c \<mapsto> Str '''')) = blank_row (c # cs) r" for r
    by (auto simp add: blank_row_def fun_eq_iff)
  have eq2: "c \<in> set list_of_columns_to_keep \<Longrightarrow> blank_row cs r = blank_row (c # cs) r" for r
    by (auto simp add: blank_row_def fun_eq_iff)
  from Cons.prems have sub: "set cs \<subseteq> set (columns d)" and c: "c \<in> set (columns d)" by auto
  show ?case
  proof (cases "c \<in> set list_of_columns_to_keep")
    case True
    then show ?thesis using Cons.IH[OF sub] eq2 by simp
  next
    case False
    have "set cs \<subseteq> set (columns (setitem d c (Str '''')))"
      using sub by (auto simp add: setitem_def add_column_def)
    from Cons.IH[OF this] False c show ?thesis
      by (simp add: setitem_def add_column_def eq o_def)
  qed
qed


lemma getitem_mk [simp]:
  "getitem \<lparr>columns = cs, rows = rs\<rparr> c =
     (if c \<in> set cs then Inr (map (\<lambda>r. cell_at r c) rs) else Inl KeyError)"
  by (simp add: getitem_def)

lemma values0_map:
  "values0 (map f xs) = (if xs = [] then Inl IndexError else Inr (f (hd xs)))"
  by (cases xs) (simp_all add: values0_def)

lemma radd_str_map:
  "radd_str p (map f xs) =
     (if list_ex (\<lambda>x. is_num (f x)) xs then Inl TypeError else Inr (map (\<lambda>x. prefix_cell p (f x)) xs))"
  by (simp add: radd_str_def list_ex_iff o_def)

lemma setitem_mk [simp]:
  "setitem \<lparr>columns = cs, rows = rs\<rparr> c v =
     \<lparr>columns = add_column cs c, rows = map (\<lambda>r. r(c \<mapsto> v)) rs\<rparr>"
  by (simp add: setitem_def)

lemma setitem_series_mk [simp]:
  "setitem_series \<lparr>columns = cs, rows = map g xs\<rparr> c (map f xs) =
     \<lparr>columns = add_column cs c, rows = map (\<lambda>x. (g x)(c \<mapsto> f x)) xs\<rparr>"
  by (simp add: setitem_series_def zip_map_map zip_same_conv_map o_def)

lemma cell_at_blank_keep [simp]:
  "c \<in> set list_of_columns_to_keep \<Longrightarrow> cell_at (blank_row cols r) c = cell_at r c"
  by (simp add: cell_at_def blank_row_def)


lemma merge_st_closed:
  assumes df: "df < length h"
  shows "(case merge_st df ob rp i h of (Inl e, h') \<Rightarrow> Inl e | (Inr p, h') \<Rightarrow> Inr (h' ! p)) =
    (if ''vbo_id'' \<notin> set (columns (h ! df)) \<or> ''term_label'' \<notin> set (columns (h ! df)) then Inl KeyError
     else if matching (h ! df) rp = [] \<or> matching (h ! df) ob = [] then Inl IndexError
     else if list_ex (\<lambda>r. is_num (cell_at r ''term_label'')) (matching (h ! df) ob) then Inl TypeError
     else Inr (concat_df
       [\<lparr>columns = obsoletion_columns (columns (h ! df)),
         rows = map (obsoletion_row (columns (h ! df)) rp (cell_at (hd (matching (h ! df) rp)) ''term_label'') i)
                  (matching (h ! df) ob)\<rparr>,
        \<lparr>columns = synonym_columns (columns (h ! df)),
         rows = map (synonym_row ob rp (cell_at (hd (matching (h ! df) ob)) ''term_label'') i)
                  (matching (h ! df) ob)\<rparr>,
        \<lparr>columns = columns (h ! df), rows = matching (h ! df) rp\<rparr>]))"
proof (cases "''vbo_id'' \<in> set (columns (h ! df))")
  case False
  then show ?thesis
    by (simp add: merge_st_def st_defs getitem_def)
next
  case vbo: True
  then obtain ids where ids: "getitem (h ! df) ''vbo_id'' = Inr ids"
    by (simp add: getitem_def)
  note sel = select_rows[OF vbo ids]
  note hp = nth_append list_update_append
  show ?thesis
  proof (cases "''term_label'' \<in> set (columns (h ! df))")
    case False
    with vbo ids df show ?thesis
      by (simp add: merge_st_def st_defs sel hp)
  next
    case lab: True
    show ?thesis
    proof (cases "matching (h ! df) rp = [] \<or> matching (h ! df) ob = []")
      case True
      with vbo lab ids df show ?thesis
        by (auto simp add: merge_st_def st_defs sel values0_map hp)
    next
      case ne: False
      have keep: "''term_label'' \<in> set list_of_columns_to_keep"
        by (simp add: list_of_columns_to_keep_def)
      show ?thesis
      proof (cases "list_ex (\<lambda>r. is_num (cell_at r ''term_label'')) (matching (h ! df) ob)")
        case True
        with vbo lab ids ne keep df show ?thesis
          by (simp add: merge_st_def st_defs sel values0_map for_each_blank
              fold_blank radd_str_map o_def hp)
      next
        case False
        with vbo lab ids ne keep df show ?thesis
          by (simp add: merge_st_def st_defs sel values0_map for_each_blank
              fold_blank radd_str_map obsoletion_columns_def synonym_columns_def
              obsoletion_row_def[abs_def] synonym_row_def[abs_def] o_def hp)
      qed
    qed
  qed
qed

lemma merge_closed:
  "merge df ob rp i =
    (if ''vbo_id'' \<notin> set (columns df) \<or> ''term_label'' \<notin> set (columns df) then Inl KeyError
     else if matching df rp = [] \<or> matching df ob = [] then Inl IndexError
     else if list_ex (\<lambda>r. is_num (cell_at r ''term_label'')) (matching df ob) then Inl TypeError
     else Inr (concat_df
       [\<lparr>columns = obsoletion_columns (columns df),
         rows = map (obsoletion_row (columns df) rp (cell_at (hd (matching df rp)) ''term_label'') i)
                  (matching df ob)\<rparr>,
        \<lparr>columns = synonym_columns (columns df),
         rows = map (synonym_row ob rp (cell_at (hd (matching df ob)) ''term_label'') i)
                  (matching df ob)\<rparr>,
        \<lparr>columns = columns df, rows = matching df rp\<rparr>]))"
  using merge_st_closed[of 0 "[df]" ob rp i]
  by (simp add: merge_def split: prod.splits sum.splits)

section \<open>The result of merge\<close>

lemma concat_df3:
  "concat_df [a, b, c] =
     \<lparr>columns = union_columns [columns a, columns b, columns c],
      rows = map (reindex (union_columns [columns a, columns b, columns c])) (rows a @ rows b @ rows c)\<rparr>"
  by (simp add: concat_df_def Let_def)

lemma merge_ok:
  assumes "''vbo_id'' \<in> set (columns df)" and "''term_label'' \<in> set (columns df)"
    and "matching df ob = ro # ros" and "matching df rp = rr # rrs"
    and "list_all (\<lambda>r. \<not> is_num (cell_at r ''term_label'')) (ro # ros)"
  shows "merge df ob rp i =
     Inr \<lparr>columns = result_columns (columns df),
          rows = map (reindex (result_columns (columns df)))
            (map (obsoletion_row (columns df) rp (cell_at rr ''term_label'') i) (ro # ros) @
             map (synonym_row ob rp (cell_at ro ''term_label'') i) (ro # ros) @
             (rr # rrs))\<rparr>"
proof -
  from assms(3,5) have "\<not> list_ex (\<lambda>r. is_num (cell_at r ''term_label'')) (matching df ob)"
    by (simp add: list_all_iff list_ex_iff)
  with assms(1-4) show ?thesis
    by (simp add: merge_closed concat_df3 result_columns_def)
qed

lemma reindex_in: "c \<in> set cols \<Longrightarrow> reindex cols r c = Some (cell_at r c)"
  by (simp add: reindex_def)

lemma set_add_column: "set (add_column cs c) = insert c (set cs)"
  by (auto simp add: add_column_def)

lemma reindex_id: "dom r = set cols \<Longrightarrow> reindex cols r = r"
  by (auto simp add: reindex_def cell_at_def fun_eq_iff split: option.splits)

lemma wf_cell:
  assumes "wf_df df" and "r \<in> set (rows df)" and "c \<in> set (columns df)"
  shows "Some (cell_at r c) = r c"
proof -
  from assms have "c \<in> dom r"
    by (simp add: wf_df_def list_all_iff)
  then show ?thesis
    by (auto simp add: cell_at_def)
qed

lemma matching_single:
  assumes "matching df x = r # rs"
  shows "r \<in> set (rows df) \<and> r ''vbo_id'' = Some (Str x)"
proof -
  have "r \<in> set (matching df x)"
    by (simp add: assms)
  then show ?thesis
    by (simp add: matching_def)
qed


lemma set_union_columns_fold:
  "set (fold (\<lambda>cs acc. acc @ filter (\<lambda>c. c \<notin> set acc) cs) css acc0) = set acc0 \<union> \<Union>(set ` set css)"
  by (induction css arbitrary: acc0) auto


lemma in_result_columns:
  "c \<in> set (result_columns cols) \<longleftrightarrow>
     c \<in> set cols \<or> c \<in> set assigned_columns"
proof -
  have 1: "set (result_columns cols) =
      set (obsoletion_columns cols) \<union> (set (synonym_columns cols) \<union> set cols)"
    unfolding result_columns_def union_columns_def set_union_columns_fold by simp
  have 2: "c \<in> set (obsoletion_columns cols) \<longleftrightarrow> c \<in> set cols \<or>
     c \<in> {''term_label'', ''obsoletion_type'', ''obsolete'', ''contributors'', ''replacement_term'',
      ''replacement_label'', ''obsolescence_reason'', ''GH_issue''}"
    unfolding obsoletion_columns_def fold_simps id_apply o_apply set_add_column insert_iff empty_iff
    by argo
  have 3: "c \<in> set (synonym_columns cols) \<longleftrightarrow> c \<in> set cols \<or>
     c \<in> {''vbo_id'', ''term_label'', ''synonym_label_from_merged_term'', ''source_for_merged_term'',
       ''synonym_type_most_common_name'', ''GH_issue''}"
    unfolding synonym_columns_def fold_simps id_apply o_apply set_add_column insert_iff empty_iff
    by argo
  show ?thesis
    unfolding 1 Un_iff 2 3 assigned_columns_def list.set insert_iff empty_iff by argo
qed


lemma add_column_id: "c \<in> set cols \<Longrightarrow> add_column cols c = cols"
  by (simp add: add_column_def)

lemma result_columns_id:
  assumes "set assigned_columns \<subseteq> set cols"
  shows "result_columns cols = cols"
proof -
  from assms have m: "''term_label'' \<in> set cols" "''obsoletion_type'' \<in> set cols"
    "''obsolete'' \<in> set cols" "''contributors'' \<in> set cols" "''replacement_term'' \<in> set cols"
    "''replacement_label'' \<in> set cols" "''obsolescence_reason'' \<in> set cols"
    "''GH_issue'' \<in> set cols" "''vbo_id'' \<in> set cols"
    "''synonym_label_from_merged_term'' \<in> set cols" "''source_for_merged_term'' \<in> set cols"
    "''synonym_type_most_common_name'' \<in> set cols"
    by (simp_all add: assigned_columns_def)
  have 1: "obsoletion_columns cols = cols"
    unfolding obsoletion_columns_def fold_simps id_apply o_apply by (simp only: add_column_id m)
  have 2: "synonym_columns cols = cols"
    unfolding synonym_columns_def fold_simps id_apply o_apply by (simp only: add_column_id m)
  show ?thesis
    by (simp add: result_columns_def union_columns_def 1 2)
qed

lemma merge_unique:
  assumes "''vbo_id'' \<in> set (columns df)" and "''term_label'' \<in> set (columns df)"
    and "matching df ob = [ro]" and "matching df rp = [rr]"
    and "ro ''term_label'' = Some (Str L)"
  shows "merge df ob rp i =
     Inr \<lparr>columns = result_columns (columns df),
          rows = map (reindex (result_columns (columns df)))
            [obsoletion_row (columns df) rp (cell_at rr ''term_label'') i ro,
             synonym_row ob rp (Str L) i ro, rr]\<rparr>"
proof -
  from assms(5) have "list_all (\<lambda>r. \<not> is_num (cell_at r ''term_label'')) [ro]"
    by (simp add: cell_at_def is_num_def)
  from merge_ok[OF assms(1,2,3,4) this] assms(5) show ?thesis
    by (simp add: cell_at_def)
qed

lemma merge_unique_labels:
  assumes "''vbo_id'' \<in> set (columns df)" and "''term_label'' \<in> set (columns df)"
    and "matching df ob = [ro]" and "matching df rp = [rr]"
    and "ro ''term_label'' = Some (Str L)" and "rr ''term_label'' = Some (Str M)"
  shows "merge df ob rp i =
     Inr \<lparr>columns = result_columns (columns df),
          rows = map (reindex (result_columns (columns df)))
            [obsoletion_row (columns df) rp (Str M) i ro,
             synonym_row ob rp (Str L) i ro, rr]\<rparr>"
proof -
  from assms(6) have "cell_at rr ''term_label'' = Str M"
    by (simp add: cell_at_def)
  with merge_unique[OF assms(1-5), of i] show ?thesis
    by simp
qed

lemmas example_defs = example_table_def example_columns_def example_obsolete_row_def
  example_replacement_row_def example_other_row_def row_of_def

lemma example_facts:
  "''vbo_id'' \<in> set (columns example_table)"
  "''term_label'' \<in> set (columns example_table)"
  "matching example_table ''VBO:0200238'' = [example_obsolete_row]"
  "matching example_table ''VBO:0200239'' = [example_replacement_row]"
  "example_obsolete_row ''term_label'' = Some (Str ''Foo'')"
  "example_replacement_row ''term_label'' = Some (Str ''Bar'')"
  by (simp_all add: example_defs matching_def)

lemma example_wf: "wf_df example_table"
  by (auto simp add: example_defs wf_df_def)


lemma blank_columns_run:
  assumes "p < length h"
  shows "blank_columns p h =
     (Inr (), h[p := \<lparr>columns = columns (h ! p),
                        rows = map (blank_row (columns (h ! p))) (rows (h ! p))\<rparr>])"
  using assms
  by (simp add: blank_columns_def bind_st_def get_df_def for_each_blank fold_blank)

lemmas more_defs = example_duplicate_row_def duplicate_table_def two_column_table_def no_label_table_def

lemma duplicate_facts:
  "''vbo_id'' \<in> set (columns duplicate_table)"
  "''term_label'' \<in> set (columns duplicate_table)"
  "matching duplicate_table ''VBO:0200238'' = [example_obsolete_row, example_duplicate_row]"
  "matching duplicate_table ''VBO:0200239'' = [example_replacement_row]"
  "\<forall>r\<in>set [example_obsolete_row, example_duplicate_row]. \<exists>L. r ''term_label'' = Some (Str L)"
  by (simp_all add: example_defs more_defs matching_def)

lemma cell_at_Some: "r c = Some v \<Longrightarrow> cell_at r c = v"
  by (simp add: cell_at_def)

lemma obsoletion_row_label:
  "obsoletion_row cols rp lm i r ''term_label'' =
     Some (prefix_cell ''obsolete '' (cell_at r ''term_label''))"
  by (simp add: obsoletion_row_def)

lemma merge_st_frame:
  "df < length h \<Longrightarrow> \<exists>new. snd (merge_st df ob rp i h) = h @ new"
  unfolding merge_st_def
  by (auto simp add: st_defs for_each_blank nth_append list_update_append split: sum.splits prod.splits)

lemma str_nat_digits:
  "\<exists>ds. str_nat n = map (\<lambda>d. ''0123456789'' ! d) ds \<and> ds \<noteq> [] \<and> (\<forall>d\<in>set ds. d < 10) \<and>
        (1 < length ds \<longrightarrow> hd ds \<noteq> 0) \<and> foldl (\<lambda>a d. 10 * a + d) 0 ds = n"
proof (induction n rule: str_nat.induct)
  case (1 n)
  show ?case
  proof (cases "n < 10")
    case True
    then have "str_nat n = map (\<lambda>d. ''0123456789'' ! d) [n]"
      by (simp add: str_nat.simps[of n] digit_char_def)
    with True show ?thesis
      by (intro exI[of _ "[n]"]) simp
  next
    case False
    from "1.IH"[OF False] obtain ds
      where s: "str_nat (n div 10) = map (\<lambda>d. ''0123456789'' ! d) ds"
        and ne: "ds \<noteq> []" and lt: "\<forall>d\<in>set ds. d < 10"
        and lead: "1 < length ds \<longrightarrow> hd ds \<noteq> 0"
        and val: "foldl (\<lambda>a d. 10 * a + d) 0 ds = n div 10"
      by blast
    have hd0: "hd ds \<noteq> 0"
    proof (cases "1 < length ds")
      case True
      with lead show ?thesis by simp
    next
      case short: False
      with ne obtain d where d: "ds = [d]"
        by (cases ds) auto
      from val False show ?thesis
        by (simp add: d)
    qed
    from False have "str_nat n = str_nat (n div 10) @ [digit_char (n mod 10)]"
      by (simp add: str_nat.simps[of n])
    then have "str_nat n = map (\<lambda>d. ''0123456789'' ! d) (ds @ [n mod 10])"
      by (simp add: s digit_char_def)
    moreover have "foldl (\<lambda>a d. 10 * a + d) 0 (ds @ [n mod 10]) = n"
      by (simp add: val)
    moreover have "\<forall>d\<in>set (ds @ [n mod 10]). d < 10"
      using lt by simp
    ultimately show ?thesis
      using ne hd0 by (intro exI[of _ "ds @ [n mod 10]"]) simp
  qed
qed

lemma str_int_digits:
  "\<exists>ds. str_int i = (if i < 0 then ''-'' else []) @ map (\<lambda>d. ''0123456789'' ! d) ds \<and>
        ds \<noteq> [] \<and> (\<forall>d\<in>set ds. d < 10) \<and> (1 < length ds \<longrightarrow> hd ds \<noteq> 0) \<and>
        int (foldl (\<lambda>a d. 10 * a + d) 0 ds) = \<bar>i\<bar>"
proof -
  from str_nat_digits[of "nat \<bar>i\<bar>"] obtain ds
    where s: "str_nat (nat \<bar>i\<bar>) = map (\<lambda>d. ''0123456789'' ! d) ds"
      and p: "ds \<noteq> []" "\<forall>d\<in>set ds. d < 10" "1 < length ds \<longrightarrow> hd ds \<noteq> 0"
      and v: "foldl (\<lambda>a d. 10 * a + d) 0 ds = nat \<bar>i\<bar>"
    by blast
  have "str_int i = (if i < 0 then ''-'' else []) @ str_nat (nat \<bar>i\<bar>)"
    by (simp add: str_int_def)
  with s p v show ?thesis
    by (intro exI[of _ ds]) simp
qed

section \<open>The claims\<close>

text \<open>
  C1. For every table in which exactly one row has the obsolete id as its \<^verbatim>\<open>vbo_id\<close> and
  exactly one row has the replacement id (the table has the columns \<^verbatim>\<open>vbo_id\<close> and
  \<^verbatim>\<open>term_label\<close>, and the labels \<open>L\<close> of the obsolete row and \<open>M\<close> of the replacement
  row are strings), \<^verbatim>\<open>merge\<close> returns a table of exactly three rows: first the
  obsoletion row, second the synonym row, both derived from the obsolete row, third the
  replacement row.
\<close>

theorem merge_three_rows_in_order:
  assumes "''vbo_id'' \<in> set (columns df)" and "''term_label'' \<in> set (columns df)"
    and "matching df term_to_obsolete = [ro]" and "matching df term_to_merge_into = [rr]"
    and "ro ''term_label'' = Some (Str L)" and "rr ''term_label'' = Some (Str M)"
  shows "\<exists>out. merge df term_to_obsolete term_to_merge_into issue = Inr out \<and>
     length (rows out) = 3 \<and>
     rows out = map (reindex (columns out))
       [obsoletion_row (columns df) term_to_merge_into (Str M) issue ro,
        synonym_row term_to_obsolete term_to_merge_into (Str L) issue ro,
        rr] \<and>
     (rows out ! 0) ''vbo_id'' = Some (Str term_to_obsolete) \<and>
     (rows out ! 0) ''obsolete'' = Some (Str ''true'') \<and>
     (rows out ! 1) ''vbo_id'' = Some (Str term_to_merge_into) \<and>
     (rows out ! 1) ''source_for_merged_term'' = Some (Str term_to_obsolete) \<and>
     (rows out ! 2) ''vbo_id'' = Some (Str term_to_merge_into)"
proof -
  note m = merge_unique_labels[OF assms, of issue]
  from matching_single[OF assms(3)] have ro: "ro ''vbo_id'' = Some (Str term_to_obsolete)" by simp
  from matching_single[OF assms(4)] have rr: "rr ''vbo_id'' = Some (Str term_to_merge_into)" by simp
  have in1: "''vbo_id'' \<in> set (result_columns (columns df))"
    "''obsolete'' \<in> set (result_columns (columns df))"
    "''source_for_merged_term'' \<in> set (result_columns (columns df))"
    by (simp_all add: in_result_columns assigned_columns_def)
  have keep: "''vbo_id'' \<in> set list_of_columns_to_keep"
    by (simp add: list_of_columns_to_keep_def)
  show ?thesis
    unfolding m
    by (simp add: reindex_in in1 cell_at_def obsoletion_row_def synonym_row_def blank_row_def ro rr keep)
qed

theorem merge_three_rows_in_order_witness:
  "matching example_table ''VBO:0200238'' = [example_obsolete_row] \<and>
   matching example_table ''VBO:0200239'' = [example_replacement_row] \<and>
   (\<exists>out. merge example_table ''VBO:0200238'' ''VBO:0200239'' 123 = Inr out \<and>
     length (rows out) = 3 \<and>
     (rows out ! 0) ''vbo_id'' = Some (Str ''VBO:0200238'') \<and>
     (rows out ! 0) ''obsolete'' = Some (Str ''true'') \<and>
     (rows out ! 1) ''vbo_id'' = Some (Str ''VBO:0200239'') \<and>
     (rows out ! 1) ''source_for_merged_term'' = Some (Str ''VBO:0200238'') \<and>
     (rows out ! 2) ''vbo_id'' = Some (Str ''VBO:0200239''))"
  using merge_three_rows_in_order[OF example_facts, of 123] example_facts(3,4)
  by blast

text \<open>
  C2. Under the same precondition, with \<open>L\<close> the label of the obsolete row and \<open>M\<close> the
  label of the replacement row, the first returned row has the obsolete id as
  \<^verbatim>\<open>vbo_id\<close>, the label \<^verbatim>\<open>"obsolete " + L\<close>, \<^verbatim>\<open>obsoletion_type = "owl:Class"\<close>,
  \<^verbatim>\<open>obsolete = "true"\<close>, an empty \<^verbatim>\<open>contributors\<close>, the replacement id as
  \<^verbatim>\<open>replacement_term\<close>, \<open>M\<close> as \<^verbatim>\<open>replacement_label\<close>,
  \<^verbatim>\<open>obsolescence_reason = "terms merged"\<close>, and as \<^verbatim>\<open>GH_issue\<close> the address of the
  issue tracker followed by the issue number. The number is written in decimal: a minus
  sign when it is negative, then the digits \<open>ds\<close> of its absolute value, most significant
  first and without a leading zero.
\<close>

theorem obsoletion_row_fields:
  assumes "''vbo_id'' \<in> set (columns df)" and "''term_label'' \<in> set (columns df)"
    and "matching df term_to_obsolete = [ro]" and "matching df term_to_merge_into = [rr]"
    and "ro ''term_label'' = Some (Str L)" and "rr ''term_label'' = Some (Str M)"
  shows "\<exists>out. merge df term_to_obsolete term_to_merge_into issue = Inr out \<and>
     (rows out ! 0) ''vbo_id'' = Some (Str term_to_obsolete) \<and>
     (rows out ! 0) ''term_label'' = Some (Str (''obsolete '' @ L)) \<and>
     (rows out ! 0) ''obsoletion_type'' = Some (Str ''owl:Class'') \<and>
     (rows out ! 0) ''obsolete'' = Some (Str ''true'') \<and>
     (rows out ! 0) ''contributors'' = Some (Str '''') \<and>
     (rows out ! 0) ''replacement_term'' = Some (Str term_to_merge_into) \<and>
     (rows out ! 0) ''replacement_label'' = Some (Str M) \<and>
     (rows out ! 0) ''obsolescence_reason'' = Some (Str ''terms merged'') \<and>
     (rows out ! 0) ''GH_issue'' =
       Some (Str (''https://github.com/monarch-initiative/vertebrate-breed-ontology/issues/''
                  @ str_int issue)) \<and>
     (\<exists>ds. (rows out ! 0) ''GH_issue'' =
       Some (Str (''https://github.com/monarch-initiative/vertebrate-breed-ontology/issues/''
                  @ (if issue < 0 then ''-'' else []) @ map (\<lambda>d. ''0123456789'' ! d) ds)) \<and>
       ds \<noteq> [] \<and> (\<forall>d\<in>set ds. d < 10) \<and> (1 < length ds \<longrightarrow> hd ds \<noteq> 0) \<and>
       int (foldl (\<lambda>a d. 10 * a + d) 0 ds) = \<bar>issue\<bar>)"
proof -
  let ?R = "result_columns (columns df)"
  let ?o1 = "reindex ?R (obsoletion_row (columns df) term_to_merge_into (Str M) issue ro)"
  let ?out = "\<lparr>columns = ?R,
      rows = map (reindex ?R)
        [obsoletion_row (columns df) term_to_merge_into (Str M) issue ro,
         synonym_row term_to_obsolete term_to_merge_into (Str L) issue ro, rr]\<rparr>"
  note m = merge_unique_labels[OF assms, of issue]
  have row0: "rows ?out ! 0 = ?o1"
    by simp
  from matching_single[OF assms(3)] have ro: "ro ''vbo_id'' = Some (Str term_to_obsolete)"
    by simp
  have cols: "''vbo_id'' \<in> set ?R" "''term_label'' \<in> set ?R" "''obsoletion_type'' \<in> set ?R"
    "''obsolete'' \<in> set ?R" "''contributors'' \<in> set ?R" "''replacement_term'' \<in> set ?R"
    "''replacement_label'' \<in> set ?R" "''obsolescence_reason'' \<in> set ?R" "''GH_issue'' \<in> set ?R"
    by (simp_all add: in_result_columns assigned_columns_def)
  have keep: "''vbo_id'' \<in> set list_of_columns_to_keep"
    by (simp add: list_of_columns_to_keep_def)
  have fields:
    "?o1 ''vbo_id'' = Some (Str term_to_obsolete)"
    "?o1 ''term_label'' = Some (Str (''obsolete '' @ L))"
    "?o1 ''obsoletion_type'' = Some (Str ''owl:Class'')"
    "?o1 ''obsolete'' = Some (Str ''true'')"
    "?o1 ''contributors'' = Some (Str '''')"
    "?o1 ''replacement_term'' = Some (Str term_to_merge_into)"
    "?o1 ''replacement_label'' = Some (Str M)"
    "?o1 ''obsolescence_reason'' = Some (Str ''terms merged'')"
    by (simp_all add: reindex_in cols cell_at_def obsoletion_row_def blank_row_def prefix_cell_def
        ro keep assms(5))
  have gh: "?o1 ''GH_issue'' =
       Some (Str (''https://github.com/monarch-initiative/vertebrate-breed-ontology/issues/''
                  @ str_int issue))"
    by (simp add: reindex_in cols cell_at_def obsoletion_row_def issue_url_def)
  from str_int_digits[of issue] obtain ds
    where s: "str_int issue = (if issue < 0 then ''-'' else []) @ map (\<lambda>d. ''0123456789'' ! d) ds"
      and d: "ds \<noteq> []" "\<forall>d\<in>set ds. d < 10" "1 < length ds \<longrightarrow> hd ds \<noteq> 0"
        "int (foldl (\<lambda>a d. 10 * a + d) 0 ds) = \<bar>issue\<bar>"
    by (elim exE conjE)
  have gh_digits: "?o1 ''GH_issue'' =
       Some (Str (''https://github.com/monarch-initiative/vertebrate-breed-ontology/issues/''
                  @ (if issue < 0 then ''-'' else []) @ map (\<lambda>d. ''0123456789'' ! d) ds))"
    unfolding gh s by (rule refl)
  have decimal: "\<exists>ds. ?o1 ''GH_issue'' =
       Some (Str (''https://github.com/monarch-initiative/vertebrate-breed-ontology/issues/''
                  @ (if issue < 0 then ''-'' else []) @ map (\<lambda>d. ''0123456789'' ! d) ds)) \<and>
       ds \<noteq> [] \<and> (\<forall>d\<in>set ds. d < 10) \<and> (1 < length ds \<longrightarrow> hd ds \<noteq> 0) \<and>
       int (foldl (\<lambda>a d. 10 * a + d) 0 ds) = \<bar>issue\<bar>"
    by (intro exI[of _ ds] conjI gh_digits d)
  show ?thesis
    apply (rule exI[of _ ?out])
    unfolding row0
    apply (intro conjI m fields gh decimal)
    done
qed

theorem obsoletion_row_fields_witness:
  "matching example_table ''VBO:0200238'' = [example_obsolete_row] \<and>
   matching example_table ''VBO:0200239'' = [example_replacement_row] \<and>
   (\<exists>out. merge example_table ''VBO:0200238'' ''VBO:0200239'' 123 = Inr out \<and>
     (rows out ! 0) ''vbo_id'' = Some (Str ''VBO:0200238'') \<and>
     (rows out ! 0) ''term_label'' = Some (Str ''obsolete Foo'') \<and>
     (rows out ! 0) ''obsoletion_type'' = Some (Str ''owl:Class'') \<and>
     (rows out ! 0) ''obsolete'' = Some (Str ''true'') \<and>
     (rows out ! 0) ''contributors'' = Some (Str '''') \<and>
     (rows out ! 0) ''replacement_term'' = Some (Str ''VBO:0200239'') \<and>
     (rows out ! 0) ''replacement_label'' = Some (Str ''Bar'') \<and>
     (rows out ! 0) ''obsolescence_reason'' = Some (Str ''terms merged'') \<and>
     (rows out ! 0) ''GH_issue'' =
       Some (Str ''https://github.com/monarch-initiative/vertebrate-breed-ontology/issues/123''))"
proof -
  have n: "str_int 123 = ''123''"
    by (simp add: str_int_def str_nat.simps digit_char_def)
  from obsoletion_row_fields[OF example_facts, of 123]
  obtain out where "merge example_table ''VBO:0200238'' ''VBO:0200239'' 123 = Inr out"
    and "(rows out ! 0) ''vbo_id'' = Some (Str ''VBO:0200238'')"
    and "(rows out ! 0) ''term_label'' = Some (Str (''obsolete '' @ ''Foo''))"
    and "(rows out ! 0) ''obsoletion_type'' = Some (Str ''owl:Class'')"
    and "(rows out ! 0) ''obsolete'' = Some (Str ''true'')"
    and "(rows out ! 0) ''contributors'' = Some (Str '''')"
    and "(rows out ! 0) ''replacement_term'' = Some (Str ''VBO:0200239'')"
    and "(rows out ! 0) ''replacement_label'' = Some (Str ''Bar'')"
    and "(rows out ! 0) ''obsolescence_reason'' = Some (Str ''terms merged'')"
    and "(rows out ! 0) ''GH_issue'' =
       Some (Str (''https://github.com/monarch-initiative/vertebrate-breed-ontology/issues/''
                  @ str_int 123))"
    by (elim exE conjE)
  with example_facts(3,4) show ?thesis
    by (intro conjI exI[of _ out]) (simp_all add: n)
qed

text \<open>
  C3. Under the same precondition (both labels are strings), on a well-formed table, the
  second returned row is a
  copy of the obsolete row in which \<^verbatim>\<open>vbo_id\<close> is the replacement id, \<^verbatim>\<open>term_label\<close> is
  empty, \<^verbatim>\<open>synonym_label_from_merged_term\<close> is the label of the obsolete row,
  \<^verbatim>\<open>source_for_merged_term\<close> is the obsolete id, \<^verbatim>\<open>synonym_type_most_common_name\<close> is
  empty and \<^verbatim>\<open>GH_issue\<close> is the same address as in the first row; every other column of
  the table keeps the value it has in the obsolete row.
\<close>

theorem synonym_row_fields:
  assumes "wf_df df"
    and "''vbo_id'' \<in> set (columns df)" and "''term_label'' \<in> set (columns df)"
    and "matching df term_to_obsolete = [ro]" and "matching df term_to_merge_into = [rr]"
    and "ro ''term_label'' = Some (Str L)" and "rr ''term_label'' = Some (Str M)"
  shows "\<exists>out. merge df term_to_obsolete term_to_merge_into issue = Inr out \<and>
     (rows out ! 1) ''vbo_id'' = Some (Str term_to_merge_into) \<and>
     (rows out ! 1) ''term_label'' = Some (Str '''') \<and>
     (rows out ! 1) ''synonym_label_from_merged_term'' = Some (Str L) \<and>
     (rows out ! 1) ''source_for_merged_term'' = Some (Str term_to_obsolete) \<and>
     (rows out ! 1) ''synonym_type_most_common_name'' = Some (Str '''') \<and>
     (rows out ! 1) ''GH_issue'' = Some (Str (issue_url issue)) \<and>
     (rows out ! 1) ''GH_issue'' = (rows out ! 0) ''GH_issue'' \<and>
     (\<forall>c\<in>set (columns df).
        c \<notin> {''vbo_id'', ''term_label'', ''synonym_label_from_merged_term'',
              ''source_for_merged_term'', ''synonym_type_most_common_name'', ''GH_issue''}
        \<longrightarrow> (rows out ! 1) c = ro c)"
proof -
  note m = merge_unique_labels[OF assms(2-7), of issue]
  from matching_single[OF assms(4)] have ro: "ro \<in> set (rows df)"
    by simp
  have cols: "''vbo_id'' \<in> set (result_columns (columns df))"
    "''term_label'' \<in> set (result_columns (columns df))"
    "''synonym_label_from_merged_term'' \<in> set (result_columns (columns df))"
    "''source_for_merged_term'' \<in> set (result_columns (columns df))"
    "''synonym_type_most_common_name'' \<in> set (result_columns (columns df))"
    "''GH_issue'' \<in> set (result_columns (columns df))"
    by (simp_all add: in_result_columns assigned_columns_def)
  have other: "reindex (result_columns (columns df))
        (synonym_row term_to_obsolete term_to_merge_into (Str L) issue ro) c = ro c"
    if "c \<in> set (columns df)"
      and "c \<notin> {''vbo_id'', ''term_label'', ''synonym_label_from_merged_term'',
              ''source_for_merged_term'', ''synonym_type_most_common_name'', ''GH_issue''}" for c
  proof -
    from that(1) have "c \<in> set (result_columns (columns df))"
      by (simp add: in_result_columns)
    moreover from that(2)
    have "cell_at (synonym_row term_to_obsolete term_to_merge_into (Str L) issue ro) c = cell_at ro c"
      by (simp add: synonym_row_def cell_at_def)
    ultimately show ?thesis
      using wf_cell[OF assms(1) ro that(1)] by (simp add: reindex_in)
  qed
  have rest: "\<forall>c\<in>set (columns df).
        c \<notin> {''vbo_id'', ''term_label'', ''synonym_label_from_merged_term'',
              ''source_for_merged_term'', ''synonym_type_most_common_name'', ''GH_issue''}
        \<longrightarrow> reindex (result_columns (columns df))
              (synonym_row term_to_obsolete term_to_merge_into (Str L) issue ro) c = ro c"
    by (intro ballI impI) (rule other)
  have fields:
    "reindex (result_columns (columns df))
       (synonym_row term_to_obsolete term_to_merge_into (Str L) issue ro) ''vbo_id''
       = Some (Str term_to_merge_into)"
    "reindex (result_columns (columns df))
       (synonym_row term_to_obsolete term_to_merge_into (Str L) issue ro) ''term_label''
       = Some (Str '''')"
    "reindex (result_columns (columns df))
       (synonym_row term_to_obsolete term_to_merge_into (Str L) issue ro)
       ''synonym_label_from_merged_term'' = Some (Str L)"
    "reindex (result_columns (columns df))
       (synonym_row term_to_obsolete term_to_merge_into (Str L) issue ro)
       ''source_for_merged_term'' = Some (Str term_to_obsolete)"
    "reindex (result_columns (columns df))
       (synonym_row term_to_obsolete term_to_merge_into (Str L) issue ro)
       ''synonym_type_most_common_name'' = Some (Str '''')"
    "reindex (result_columns (columns df))
       (synonym_row term_to_obsolete term_to_merge_into (Str L) issue ro) ''GH_issue''
       = Some (Str (issue_url issue))"
    "reindex (result_columns (columns df))
       (obsoletion_row (columns df) term_to_merge_into (Str M) issue ro)
       ''GH_issue'' = Some (Str (issue_url issue))"
    by (simp_all add: reindex_in cols cell_at_def obsoletion_row_def synonym_row_def)
  show ?thesis
    unfolding m using rest by (simp add: fields del: insert_iff)
qed

theorem synonym_row_fields_witness:
  "wf_df example_table \<and>
   (\<exists>out. merge example_table ''VBO:0200238'' ''VBO:0200239'' 123 = Inr out \<and>
     (rows out ! 1) ''vbo_id'' = Some (Str ''VBO:0200239'') \<and>
     (rows out ! 1) ''term_label'' = Some (Str '''') \<and>
     (rows out ! 1) ''synonym_label_from_merged_term'' = Some (Str ''Foo'') \<and>
     (rows out ! 1) ''source_for_merged_term'' = Some (Str ''VBO:0200238'') \<and>
     (rows out ! 1) ''synonym_type_most_common_name'' = Some (Str '''') \<and>
     (rows out ! 1) ''GH_issue'' =
       Some (Str ''https://github.com/monarch-initiative/vertebrate-breed-ontology/issues/123'') \<and>
     (rows out ! 1) ''comment'' = Some (Str ''a dog breed'') \<and>
     (rows out ! 1) ''contributors'' = Some (Str ''ORCID:3''))"
proof -
  have n: "issue_url 123 =
      ''https://github.com/monarch-initiative/vertebrate-breed-ontology/issues/123''"
    by (simp add: issue_url_def str_int_def str_nat.simps digit_char_def)
  have c: "''comment'' \<in> set (columns example_table)" "''contributors'' \<in> set (columns example_table)"
    by (simp_all add: example_defs)
  have v: "example_obsolete_row ''comment'' = Some (Str ''a dog breed'')"
    "example_obsolete_row ''contributors'' = Some (Str ''ORCID:3'')"
    by (simp_all add: example_defs)
  from synonym_row_fields[OF example_wf example_facts, of 123]
  obtain out where out: "merge example_table ''VBO:0200238'' ''VBO:0200239'' 123 = Inr out"
    and f: "(rows out ! 1) ''vbo_id'' = Some (Str ''VBO:0200239'')"
     "(rows out ! 1) ''term_label'' = Some (Str '''')"
     "(rows out ! 1) ''synonym_label_from_merged_term'' = Some (Str ''Foo'')"
     "(rows out ! 1) ''source_for_merged_term'' = Some (Str ''VBO:0200238'')"
     "(rows out ! 1) ''synonym_type_most_common_name'' = Some (Str '''')"
     "(rows out ! 1) ''GH_issue'' = Some (Str (issue_url 123))"
    and r: "\<forall>c\<in>set (columns example_table).
        c \<notin> {''vbo_id'', ''term_label'', ''synonym_label_from_merged_term'',
              ''source_for_merged_term'', ''synonym_type_most_common_name'', ''GH_issue''}
        \<longrightarrow> (rows out ! 1) c = example_obsolete_row c"
    by blast
  from r c have "(rows out ! 1) ''comment'' = example_obsolete_row ''comment''"
    "(rows out ! 1) ''contributors'' = example_obsolete_row ''contributors''"
    by simp_all
  with out f v n example_wf show ?thesis
    by simp
qed

text \<open>
  C4. The loop over the columns of the copy of the obsolete row runs before the
  assignments: it blanks every column of the table other than \<^verbatim>\<open>term_label\<close>,
  \<^verbatim>\<open>vbo_id\<close> and \<^verbatim>\<open>contributor\<close> and leaves these three as they are, giving the row
  \<open>b\<close>. The first returned row is \<open>b\<close> with the eight assignments made on top of it: the
  assigned columns hold the assigned values, not the blank, and on every other column of
  the table the row agrees with \<open>b\<close>. So it keeps the \<^verbatim>\<open>contributor\<close> of the obsolete
  row, and every column of the table outside the three kept and the seven assigned ones
  is the empty string.
\<close>

theorem obsoletion_row_blanked:
  assumes "wf_df df"
    and "''vbo_id'' \<in> set (columns df)" and "''term_label'' \<in> set (columns df)"
    and "matching df term_to_obsolete = [ro]" and "matching df term_to_merge_into = [rr]"
    and "ro ''term_label'' = Some (Str L)" and "rr ''term_label'' = Some (Str M)"
  shows "\<exists>b out.
     blank_columns 0 [\<lparr>columns = columns df, rows = [ro]\<rparr>] =
       (Inr (), [\<lparr>columns = columns df, rows = [b]\<rparr>]) \<and>
     (\<forall>c\<in>set (columns df).
        b c = (if c \<in> {''term_label'', ''vbo_id'', ''contributor''} then ro c else Some (Str ''''))) \<and>
     merge df term_to_obsolete term_to_merge_into issue = Inr out \<and>
     (\<forall>c\<in>set (columns df).
        c \<notin> {''term_label'', ''obsoletion_type'', ''obsolete'', ''contributors'',
              ''replacement_term'', ''replacement_label'', ''obsolescence_reason'', ''GH_issue''}
        \<longrightarrow> (rows out ! 0) c = b c) \<and>
     (''contributor'' \<in> set (columns df) \<longrightarrow> (rows out ! 0) ''contributor'' = ro ''contributor'') \<and>
     (\<forall>c\<in>set (columns df).
        c \<notin> {''term_label'', ''vbo_id'', ''contributor''} \<and>
        c \<notin> {''obsoletion_type'', ''obsolete'', ''contributors'', ''replacement_term'',
              ''replacement_label'', ''obsolescence_reason'', ''GH_issue''}
        \<longrightarrow> (rows out ! 0) c = Some (Str '''')) \<and>
     rows out ! 0 = reindex (columns out)
       (b(''term_label'' \<mapsto> Str (''obsolete '' @ L),
          ''obsoletion_type'' \<mapsto> Str ''owl:Class'',
          ''obsolete'' \<mapsto> Str ''true'',
          ''contributors'' \<mapsto> Str '''',
          ''replacement_term'' \<mapsto> Str term_to_merge_into,
          ''replacement_label'' \<mapsto> Str M,
          ''obsolescence_reason'' \<mapsto> Str ''terms merged'',
          ''GH_issue'' \<mapsto> Str (issue_url issue))) \<and>
     (rows out ! 0) ''term_label'' = Some (Str (''obsolete '' @ L)) \<and>
     (rows out ! 0) ''obsoletion_type'' = Some (Str ''owl:Class'') \<and>
     (rows out ! 0) ''obsolete'' = Some (Str ''true'') \<and>
     (rows out ! 0) ''contributors'' = Some (Str '''') \<and>
     (rows out ! 0) ''replacement_term'' = Some (Str term_to_merge_into) \<and>
     (rows out ! 0) ''replacement_label'' = Some (Str M) \<and>
     (rows out ! 0) ''obsolescence_reason'' = Some (Str ''terms merged'') \<and>
     (rows out ! 0) ''GH_issue'' = Some (Str (issue_url issue))"
proof -
  let ?b = "blank_row (columns df) ro"
  let ?o1 = "obsoletion_row (columns df) term_to_merge_into (Str M) issue ro"
  let ?R = "result_columns (columns df)"
  let ?out = "\<lparr>columns = ?R,
      rows = map (reindex ?R)
        [?o1, synonym_row term_to_obsolete term_to_merge_into (Str L) issue ro, rr]\<rparr>"
  note m = merge_unique_labels[OF assms(2-7), of issue]
  have row0: "rows ?out ! 0 = reindex ?R ?o1"
    by simp
  have col0: "columns ?out = ?R"
    by simp
  from matching_single[OF assms(4)] have ro: "ro \<in> set (rows df)"
    by simp
  have run: "blank_columns 0 [\<lparr>columns = columns df, rows = [ro]\<rparr>] =
       (Inr (), [\<lparr>columns = columns df, rows = [?b]\<rparr>])"
    by (simp add: blank_columns_run)
  have b: "?b c = (if c \<in> {''term_label'', ''vbo_id'', ''contributor''} then ro c else Some (Str ''''))"
    if "c \<in> set (columns df)" for c
    using that by (simp add: blank_row_def list_of_columns_to_keep_def)
  have b_some: "Some (cell_at ?b c) = ?b c" if "c \<in> set (columns df)" for c
    using wf_cell[OF assms(1) ro that] that
    by (simp add: blank_row_def cell_at_def)
  have o1: "reindex ?R ?o1 c = ?b c"
    if "c \<in> set (columns df)"
      and "c \<notin> {''term_label'', ''obsoletion_type'', ''obsolete'', ''contributors'',
              ''replacement_term'', ''replacement_label'', ''obsolescence_reason'', ''GH_issue''}"
    for c
  proof -
    from that(1) have "c \<in> set ?R"
      by (simp add: in_result_columns)
    moreover from that(2) have "cell_at ?o1 c = cell_at ?b c"
      by (simp add: obsoletion_row_def cell_at_def)
    ultimately show ?thesis
      using b_some[OF that(1)] by (simp add: reindex_in)
  qed
  have contributor: "reindex ?R ?o1 ''contributor'' = ro ''contributor''"
    if "''contributor'' \<in> set (columns df)"
    using o1[OF that] b[OF that] by simp
  have blank: "reindex ?R ?o1 c = Some (Str '''')"
    if "c \<in> set (columns df)" and "c \<notin> {''term_label'', ''vbo_id'', ''contributor''} \<and>
        c \<notin> {''obsoletion_type'', ''obsolete'', ''contributors'', ''replacement_term'',
              ''replacement_label'', ''obsolescence_reason'', ''GH_issue''}" for c
  proof -
    from that(2) have "c \<notin> {''term_label'', ''obsoletion_type'', ''obsolete'', ''contributors'',
              ''replacement_term'', ''replacement_label'', ''obsolescence_reason'', ''GH_issue''}"
      by simp
    from o1[OF that(1) this] b[OF that(1)] that(2) show ?thesis
      by simp
  qed
  have c1: "(\<forall>c\<in>set (columns df). ?b c =
           (if c \<in> {''term_label'', ''vbo_id'', ''contributor''} then ro c else Some (Str '''')))"
    by (intro ballI) (rule b)
  have c2: "(\<forall>c\<in>set (columns df).
        c \<notin> {''term_label'', ''obsoletion_type'', ''obsolete'', ''contributors'',
              ''replacement_term'', ''replacement_label'', ''obsolescence_reason'', ''GH_issue''}
        \<longrightarrow> reindex ?R ?o1 c = ?b c)"
    by (intro ballI impI) (rule o1)
  have c3: "''contributor'' \<in> set (columns df) \<longrightarrow> reindex ?R ?o1 ''contributor'' = ro ''contributor''"
    by (intro impI) (rule contributor)
  have c4: "(\<forall>c\<in>set (columns df).
        c \<notin> {''term_label'', ''vbo_id'', ''contributor''} \<and>
        c \<notin> {''obsoletion_type'', ''obsolete'', ''contributors'', ''replacement_term'',
              ''replacement_label'', ''obsolescence_reason'', ''GH_issue''}
        \<longrightarrow> reindex ?R ?o1 c = Some (Str ''''))"
    by (intro ballI impI) (rule blank)
  from assms(6) have label: "cell_at ro ''term_label'' = Str L"
    by (simp add: cell_at_def)
  have assigned: "?o1 =
       ?b(''term_label'' \<mapsto> Str (''obsolete '' @ L),
          ''obsoletion_type'' \<mapsto> Str ''owl:Class'',
          ''obsolete'' \<mapsto> Str ''true'',
          ''contributors'' \<mapsto> Str '''',
          ''replacement_term'' \<mapsto> Str term_to_merge_into,
          ''replacement_label'' \<mapsto> Str M,
          ''obsolescence_reason'' \<mapsto> Str ''terms merged'',
          ''GH_issue'' \<mapsto> Str (issue_url issue))"
    by (simp add: obsoletion_row_def label prefix_cell_def)
  have c5: "reindex ?R ?o1 = reindex ?R
       (?b(''term_label'' \<mapsto> Str (''obsolete '' @ L),
          ''obsoletion_type'' \<mapsto> Str ''owl:Class'',
          ''obsolete'' \<mapsto> Str ''true'',
          ''contributors'' \<mapsto> Str '''',
          ''replacement_term'' \<mapsto> Str term_to_merge_into,
          ''replacement_label'' \<mapsto> Str M,
          ''obsolescence_reason'' \<mapsto> Str ''terms merged'',
          ''GH_issue'' \<mapsto> Str (issue_url issue)))"
    using assigned by (rule arg_cong)
  have cols: "''term_label'' \<in> set ?R" "''obsoletion_type'' \<in> set ?R"
    "''obsolete'' \<in> set ?R" "''contributors'' \<in> set ?R" "''replacement_term'' \<in> set ?R"
    "''replacement_label'' \<in> set ?R" "''obsolescence_reason'' \<in> set ?R" "''GH_issue'' \<in> set ?R"
    by (simp_all add: in_result_columns assigned_columns_def)
  have fields:
    "reindex ?R ?o1 ''term_label'' = Some (Str (''obsolete '' @ L))"
    "reindex ?R ?o1 ''obsoletion_type'' = Some (Str ''owl:Class'')"
    "reindex ?R ?o1 ''obsolete'' = Some (Str ''true'')"
    "reindex ?R ?o1 ''contributors'' = Some (Str '''')"
    "reindex ?R ?o1 ''replacement_term'' = Some (Str term_to_merge_into)"
    "reindex ?R ?o1 ''replacement_label'' = Some (Str M)"
    "reindex ?R ?o1 ''obsolescence_reason'' = Some (Str ''terms merged'')"
    "reindex ?R ?o1 ''GH_issue'' = Some (Str (issue_url issue))"
    by (simp_all add: reindex_in cols cell_at_def obsoletion_row_def assms(6) prefix_cell_def)
  show ?thesis
    apply (rule exI[of _ ?b])
    apply (rule exI[of _ ?out])
    unfolding row0 col0
    apply (intro conjI run c1 m c2 c3 c4 c5 fields)
    done
qed

theorem obsoletion_row_blanked_witness:
  "wf_df example_table \<and>
   (\<exists>b out.
     blank_columns 0 [\<lparr>columns = columns example_table, rows = [example_obsolete_row]\<rparr>] =
       (Inr (), [\<lparr>columns = columns example_table, rows = [b]\<rparr>]) \<and>
     b ''comment'' = Some (Str '''') \<and>
     b ''contributors'' = Some (Str '''') \<and>
     b ''obsolete'' = Some (Str '''') \<and>
     b ''contributor'' = Some (Str ''ORCID:1'') \<and>
     merge example_table ''VBO:0200238'' ''VBO:0200239'' 123 = Inr out \<and>
     (rows out ! 0) ''comment'' = Some (Str '''') \<and>
     (rows out ! 0) ''synonym_type_most_common_name'' = Some (Str '''') \<and>
     (rows out ! 0) ''contributor'' = Some (Str ''ORCID:1'') \<and>
     (rows out ! 0) ''obsolete'' = Some (Str ''true'') \<and>
     (rows out ! 0) ''obsoletion_type'' = Some (Str ''owl:Class'') \<and>
     (rows out ! 0) ''replacement_label'' = Some (Str ''Bar''))"
proof -
  have c: "''comment'' \<in> set (columns example_table)"
    "''contributors'' \<in> set (columns example_table)"
    "''obsolete'' \<in> set (columns example_table)"
    "''contributor'' \<in> set (columns example_table)"
    "''synonym_type_most_common_name'' \<in> set (columns example_table)"
    by (simp_all add: example_defs)
  have v: "example_obsolete_row ''contributor'' = Some (Str ''ORCID:1'')"
    by (simp add: example_defs)
  from obsoletion_row_blanked[OF example_wf example_facts, of 123]
  obtain b out where run:
      "blank_columns 0 [\<lparr>columns = columns example_table, rows = [example_obsolete_row]\<rparr>] =
         (Inr (), [\<lparr>columns = columns example_table, rows = [b]\<rparr>])"
    and b: "\<forall>c\<in>set (columns example_table).
        b c = (if c \<in> {''term_label'', ''vbo_id'', ''contributor''} then example_obsolete_row c
               else Some (Str ''''))"
    and out: "merge example_table ''VBO:0200238'' ''VBO:0200239'' 123 = Inr out"
    and keep: "''contributor'' \<in> set (columns example_table) \<longrightarrow>
        (rows out ! 0) ''contributor'' = example_obsolete_row ''contributor''"
    and blank: "\<forall>c\<in>set (columns example_table).
        c \<notin> {''term_label'', ''vbo_id'', ''contributor''} \<and>
        c \<notin> {''obsoletion_type'', ''obsolete'', ''contributors'', ''replacement_term'',
              ''replacement_label'', ''obsolescence_reason'', ''GH_issue''}
        \<longrightarrow> (rows out ! 0) c = Some (Str '''')"
    and assigned: "(rows out ! 0) ''obsolete'' = Some (Str ''true'')"
      "(rows out ! 0) ''obsoletion_type'' = Some (Str ''owl:Class'')"
      "(rows out ! 0) ''replacement_label'' = Some (Str ''Bar'')"
    by (elim exE conjE)
  from b c v have "b ''comment'' = Some (Str '''')" "b ''contributors'' = Some (Str '''')"
    "b ''obsolete'' = Some (Str '''')" "b ''contributor'' = Some (Str ''ORCID:1'')"
    by simp_all
  moreover from blank c have "(rows out ! 0) ''comment'' = Some (Str '''')"
    "(rows out ! 0) ''synonym_type_most_common_name'' = Some (Str '''')"
    by simp_all
  moreover from keep c v have "(rows out ! 0) ''contributor'' = Some (Str ''ORCID:1'')"
    by simp
  ultimately show ?thesis
    using run out example_wf assigned by (intro conjI exI[of _ b] exI[of _ out])
qed

text \<open>
  C5. Under the same precondition (both labels are strings), on a well-formed table, the
  third returned row has in
  every column of the table the value of the row whose \<^verbatim>\<open>vbo_id\<close> is the replacement id.
  When the table has all the columns that \<^verbatim>\<open>merge\<close> assigns to, the result has the
  header of the table and its third row is that row itself.
\<close>

theorem replacement_row_unchanged:
  assumes "wf_df df"
    and "''vbo_id'' \<in> set (columns df)" and "''term_label'' \<in> set (columns df)"
    and "matching df term_to_obsolete = [ro]" and "matching df term_to_merge_into = [rr]"
    and "ro ''term_label'' = Some (Str L)" and "rr ''term_label'' = Some (Str M)"
  shows "\<exists>out. merge df term_to_obsolete term_to_merge_into issue = Inr out \<and>
     length (rows out) = 3 \<and>
     (\<forall>c\<in>set (columns df). (rows out ! 2) c = rr c) \<and>
     (set assigned_columns \<subseteq> set (columns df) \<longrightarrow>
        columns out = columns df \<and> rows out ! 2 = rr)"
proof -
  let ?R = "result_columns (columns df)"
  note m = merge_unique_labels[OF assms(2-7), of issue]
  from matching_single[OF assms(5)] have rr: "rr \<in> set (rows df)"
    by simp
  with assms(1) have dom: "dom rr = set (columns df)"
    by (simp add: wf_df_def list_all_iff)
  have cellwise: "\<forall>c\<in>set (columns df). reindex ?R rr c = rr c"
  proof
    fix c assume c: "c \<in> set (columns df)"
    then have "c \<in> set ?R"
      by (simp add: in_result_columns)
    then show "reindex ?R rr c = rr c"
      using wf_cell[OF assms(1) rr c] by (simp add: reindex_in)
  qed
  have same_header: "?R = columns df" if "set assigned_columns \<subseteq> set (columns df)"
    using that by (rule result_columns_id)
  have whole: "reindex (columns df) rr = rr"
    using dom by (rule reindex_id)
  show ?thesis
    unfolding m using cellwise by (simp add: same_header whole)
qed

theorem replacement_row_unchanged_witness:
  "wf_df example_table \<and> set assigned_columns \<subseteq> set (columns example_table) \<and>
   matching example_table ''VBO:0200239'' = [example_replacement_row] \<and>
   (\<exists>out. merge example_table ''VBO:0200238'' ''VBO:0200239'' 123 = Inr out \<and>
      length (rows out) = 3 \<and> columns out = columns example_table \<and>
      rows out ! 2 = example_replacement_row)"
proof -
  have a: "set assigned_columns \<subseteq> set (columns example_table)"
    by (simp add: assigned_columns_def example_defs)
  from replacement_row_unchanged[OF example_wf example_facts, of 123] a
  obtain out where "merge example_table ''VBO:0200238'' ''VBO:0200239'' 123 = Inr out"
    and "length (rows out) = 3" and "columns out = columns example_table"
    and "rows out ! 2 = example_replacement_row"
    by (elim exE conjE impE)
  with example_wf a example_facts(4) show ?thesis
    by (intro conjI exI[of _ out])
qed

text \<open>
  C6. The claim that an id matching several rows still gives three rows, all derived
  from the first match, fails: the boolean mask selects every matching row. On a table
  with two rows for the obsolete id the result has five rows, and its second row is the
  obsoletion row of the second match.
\<close>

theorem merge_duplicates_counterexample:
  "length (matching duplicate_table ''VBO:0200238'') = 2 \<and>
   \<not> isl (merge duplicate_table ''VBO:0200238'' ''VBO:0200239'' 123) \<and>
   length (rows (projr (merge duplicate_table ''VBO:0200238'' ''VBO:0200239'' 123))) = 5 \<and>
   (rows (projr (merge duplicate_table ''VBO:0200238'' ''VBO:0200239'' 123)) ! 1) ''term_label''
     = Some (Str ''obsolete Foo again'')"
proof -
  have n: "list_all (\<lambda>r. \<not> is_num (cell_at r ''term_label'')) [example_obsolete_row, example_duplicate_row]"
    by (simp add: example_defs more_defs cell_at_def is_num_def)
  have c: "''term_label'' \<in> set (result_columns (columns duplicate_table))"
    by (simp add: in_result_columns assigned_columns_def)
  have l: "example_duplicate_row ''term_label'' = Some (Str ''Foo again'')"
    by (simp add: example_defs more_defs)
  show ?thesis
    unfolding merge_ok[OF duplicate_facts(1-4) n]
    by (simp add: duplicate_facts(3) reindex_in c obsoletion_row_def cell_at_def l prefix_cell_def)
qed

text \<open>
  C6, as the code has it. When the obsolete id matches \<open>k \<ge> 1\<close> rows with string labels
  and the replacement id matches \<open>m \<ge> 1\<close> rows, the first of them with a string label
  \<open>M\<close>, \<^verbatim>\<open>merge\<close> returns \<open>2k + m\<close> rows: an obsoletion row for each obsolete match,
  then a synonym row for each obsolete match, then every replacement match. Only the two
  labels copied across are read from the first match: \<^verbatim>\<open>replacement_label\<close> is \<open>M\<close>, the
  label of the first replacement match, and \<^verbatim>\<open>synonym_label_from_merged_term\<close> is the
  label of the first obsolete match.
\<close>

theorem merge_returns_every_match:
  assumes "''vbo_id'' \<in> set (columns df)" and "''term_label'' \<in> set (columns df)"
    and "matching df term_to_obsolete = ro # ros"
    and "matching df term_to_merge_into = rr # rrs"
    and "\<forall>r\<in>set (ro # ros). \<exists>L. r ''term_label'' = Some (Str L)"
    and "rr ''term_label'' = Some (Str M)"
  shows "\<exists>out. merge df term_to_obsolete term_to_merge_into issue = Inr out \<and>
     length (rows out) = 2 * length (ro # ros) + length (rr # rrs) \<and>
     rows out = map (reindex (columns out))
       (map (obsoletion_row (columns df) term_to_merge_into (Str M) issue)
            (ro # ros) @
        map (synonym_row term_to_obsolete term_to_merge_into (cell_at ro ''term_label'') issue)
            (ro # ros) @
        (rr # rrs))"
proof -
  from assms(5) have "list_all (\<lambda>r. \<not> is_num (cell_at r ''term_label'')) (ro # ros)"
    by (auto simp add: list_all_iff cell_at_def is_num_def)
  moreover from assms(6) have "cell_at rr ''term_label'' = Str M"
    by (simp add: cell_at_def)
  ultimately show ?thesis
    using merge_ok[OF assms(1-4), of issue] by simp
qed

theorem merge_returns_every_match_witness:
  "matching duplicate_table ''VBO:0200238'' = [example_obsolete_row, example_duplicate_row] \<and>
   matching duplicate_table ''VBO:0200239'' = [example_replacement_row] \<and>
   (\<exists>out. merge duplicate_table ''VBO:0200238'' ''VBO:0200239'' 123 = Inr out \<and>
      length (rows out) = 5)"
proof -
  from merge_returns_every_match[OF duplicate_facts example_facts(6), of 123]
  obtain out where "merge duplicate_table ''VBO:0200238'' ''VBO:0200239'' 123 = Inr out"
    and "length (rows out) =
      2 * length [example_obsolete_row, example_duplicate_row] + length [example_replacement_row]"
    by (elim exE conjE)
  then have "merge duplicate_table ''VBO:0200238'' ''VBO:0200239'' 123 = Inr out \<and>
      length (rows out) = 5"
    by simp
  with duplicate_facts(3,4) show ?thesis
    by (intro conjI exI[of _ out]) simp_all
qed

text \<open>
  C7. When the obsolete id or the replacement id matches no row, \<^verbatim>\<open>merge\<close> returns no
  table: it raises an error, and on a table that has the columns \<^verbatim>\<open>vbo_id\<close> and
  \<^verbatim>\<open>term_label\<close> the error is the IndexError of \<^verbatim>\<open>.values[0]\<close> on an empty selection.
\<close>

theorem merge_missing_id_fails:
  assumes "matching df term_to_obsolete = [] \<or> matching df term_to_merge_into = []"
  shows "(\<exists>e. merge df term_to_obsolete term_to_merge_into issue = Inl e) \<and>
     (''vbo_id'' \<in> set (columns df) \<and> ''term_label'' \<in> set (columns df) \<longrightarrow>
        merge df term_to_obsolete term_to_merge_into issue = Inl IndexError)"
  using assms by (auto simp add: merge_closed)

theorem merge_missing_id_fails_witness:
  "matching example_table ''VBO:9999999'' = [] \<and>
   merge example_table ''VBO:9999999'' ''VBO:0200239'' 123 = Inl IndexError \<and>
   merge example_table ''VBO:0200238'' ''VBO:9999999'' 123 = Inl IndexError"
proof -
  have e: "matching example_table ''VBO:9999999'' = []"
    by (simp add: example_defs matching_def)
  from merge_missing_id_fails[of example_table "''VBO:9999999''" "''VBO:0200239''" 123]
    merge_missing_id_fails[of example_table "''VBO:0200238''" "''VBO:9999999''" 123]
    e example_facts(1,2)
  show ?thesis
    by simp
qed

text \<open>
  C8. \<^verbatim>\<open>merge\<close> is not idempotent: on the example table the first call returns three
  rows; the second call, on that output with the same ids and issue, returns four rows,
  the first with the label prefixed once more.
\<close>

theorem merge_not_idempotent:
  "\<exists>out out'.
     merge example_table ''VBO:0200238'' ''VBO:0200239'' 123 = Inr out \<and>
     length (rows out) = 3 \<and>
     merge out ''VBO:0200238'' ''VBO:0200239'' 123 = Inr out' \<and>
     length (rows out') = 4 \<and>
     (rows out ! 0) ''term_label'' = Some (Str ''obsolete Foo'') \<and>
     (rows out' ! 0) ''term_label'' = Some (Str ''obsolete obsolete Foo'') \<and>
     out' \<noteq> out"
proof -
  let ?R = "result_columns (columns example_table)"
  let ?o1 = "reindex ?R (obsoletion_row (columns example_table) ''VBO:0200239''
               (cell_at example_replacement_row ''term_label'') 123 example_obsolete_row)"
  let ?o2 = "reindex ?R (synonym_row ''VBO:0200238'' ''VBO:0200239'' (Str ''Foo'') 123
               example_obsolete_row)"
  let ?r3 = "reindex ?R example_replacement_row"
  let ?out = "\<lparr>columns = ?R, rows = [?o1, ?o2, ?r3]\<rparr>"
  have m1: "merge example_table ''VBO:0200238'' ''VBO:0200239'' 123 = Inr ?out"
    by (simp add: merge_unique[OF example_facts(1-5)])
  have cols: "''vbo_id'' \<in> set ?R" "''term_label'' \<in> set ?R"
    by (simp_all add: in_result_columns assigned_columns_def)
  have keep: "''vbo_id'' \<in> set list_of_columns_to_keep"
    by (simp add: list_of_columns_to_keep_def)
  have ids: "example_obsolete_row ''vbo_id'' = Some (Str ''VBO:0200238'')"
    "example_replacement_row ''vbo_id'' = Some (Str ''VBO:0200239'')"
    by (simp_all add: example_defs)
  have v: "?o1 ''vbo_id'' = Some (Str ''VBO:0200238'')" "?o2 ''vbo_id'' = Some (Str ''VBO:0200239'')"
    "?r3 ''vbo_id'' = Some (Str ''VBO:0200239'')" "?o1 ''term_label'' = Some (Str ''obsolete Foo'')"
    by (simp_all add: reindex_in cols cell_at_def obsoletion_row_def synonym_row_def blank_row_def
        keep ids example_facts(5) prefix_cell_def)
  have f: "''vbo_id'' \<in> set (columns ?out)" "''term_label'' \<in> set (columns ?out)"
    "matching ?out ''VBO:0200238'' = [?o1]" "matching ?out ''VBO:0200239'' = [?o2, ?r3]"
    by (simp_all add: cols matching_def v)
  let ?R' = "result_columns ?R"
  let ?o1' = "reindex ?R' (obsoletion_row ?R ''VBO:0200239''
               (cell_at ?o2 ''term_label'') 123 ?o1)"
  let ?o2' = "reindex ?R' (synonym_row ''VBO:0200238'' ''VBO:0200239'' (Str ''obsolete Foo'') 123 ?o1)"
  let ?out' = "\<lparr>columns = ?R', rows = [?o1', ?o2', reindex ?R' ?o2, reindex ?R' ?r3]\<rparr>"
  have lab1: "cell_at ?o1 ''term_label'' = Str ''obsolete Foo''"
    by (rule cell_at_Some) (rule v(4))
  have n: "list_all (\<lambda>r. \<not> is_num (cell_at r ''term_label'')) [?o1]"
    by (simp add: lab1 is_num_def)
  have m2: "merge ?out ''VBO:0200238'' ''VBO:0200239'' 123 = Inr ?out'"
    using merge_ok[OF f n, of 123] by (simp add: lab1)

  have "obsoletion_row ?R ''VBO:0200239'' (cell_at ?o2 ''term_label'') 123 ?o1
      ''term_label'' = Some (Str ''obsolete obsolete Foo'')"
    by (simp add: obsoletion_row_label lab1 prefix_cell_def)
  then have "cell_at (obsoletion_row ?R ''VBO:0200239'' (cell_at ?o2 ''term_label'') 123 ?o1)
      ''term_label'' = Str ''obsolete obsolete Foo''"
    by (rule cell_at_Some)
  then have l': "?o1' ''term_label'' = Some (Str ''obsolete obsolete Foo'')"
    by (simp add: reindex_in in_result_columns assigned_columns_def)
  have "length (rows ?out') \<noteq> length (rows ?out)"
    by simp
  then have ne: "?out' \<noteq> ?out"
    by metis
  have final: "merge example_table ''VBO:0200238'' ''VBO:0200239'' 123 = Inr ?out \<and>
     length (rows ?out) = 3 \<and>
     merge ?out ''VBO:0200238'' ''VBO:0200239'' 123 = Inr ?out' \<and>
     length (rows ?out') = 4 \<and>
     (rows ?out ! 0) ''term_label'' = Some (Str ''obsolete Foo'') \<and>
     (rows ?out' ! 0) ''term_label'' = Some (Str ''obsolete obsolete Foo'') \<and>
     ?out' \<noteq> ?out"
    by (intro conjI m1 m2 ne) (simp_all add: v l')
  show ?thesis
    apply (rule exI[of _ ?out])
    apply (rule exI[of _ ?out'])
    apply (rule final)
    done
qed

text \<open>
  C9. The claim that a table missing any one of the listed columns makes \<^verbatim>\<open>merge\<close> fail
  with a key-lookup error fails: a table with the columns \<^verbatim>\<open>vbo_id\<close> and \<^verbatim>\<open>term_label\<close>
  only is merged into three rows, and the ten columns assigned to are added to the header.
\<close>

theorem merge_missing_column_counterexample:
  "columns two_column_table = [''vbo_id'', ''term_label''] \<and>
   \<not> isl (merge two_column_table ''VBO:0200238'' ''VBO:0200239'' 123) \<and>
   length (rows (projr (merge two_column_table ''VBO:0200238'' ''VBO:0200239'' 123))) = 3 \<and>
   columns (projr (merge two_column_table ''VBO:0200238'' ''VBO:0200239'' 123)) =
     [''vbo_id'', ''term_label'', ''obsoletion_type'', ''obsolete'', ''contributors'',
      ''replacement_term'', ''replacement_label'', ''obsolescence_reason'', ''GH_issue'',
      ''synonym_label_from_merged_term'', ''source_for_merged_term'',
      ''synonym_type_most_common_name'']"
proof -
  have f: "''vbo_id'' \<in> set (columns two_column_table)"
    "''term_label'' \<in> set (columns two_column_table)"
    "matching two_column_table ''VBO:0200238'' =
       [row_of [''vbo_id'', ''term_label''] [Str ''VBO:0200238'', Str ''Foo'']]"
    "matching two_column_table ''VBO:0200239'' =
       [row_of [''vbo_id'', ''term_label''] [Str ''VBO:0200239'', Str ''Bar'']]"
    "row_of [''vbo_id'', ''term_label''] [Str ''VBO:0200238'', Str ''Foo''] ''term_label'' = Some (Str ''Foo'')"
    by (simp_all add: more_defs matching_def row_of_def)
  have c: "result_columns (columns two_column_table) =
     [''vbo_id'', ''term_label'', ''obsoletion_type'', ''obsolete'', ''contributors'',
      ''replacement_term'', ''replacement_label'', ''obsolescence_reason'', ''GH_issue'',
      ''synonym_label_from_merged_term'', ''source_for_merged_term'',
      ''synonym_type_most_common_name'']"
    by (simp add: more_defs result_columns_def union_columns_def obsoletion_columns_def
        synonym_columns_def add_column_def)
  show ?thesis
    unfolding merge_unique[OF f]
    by (simp add: c) (simp add: more_defs)
qed

text \<open>
  C9, as the code has it. \<^verbatim>\<open>merge\<close> raises KeyError exactly when the table lacks the
  column \<^verbatim>\<open>vbo_id\<close> or the column \<^verbatim>\<open>term_label\<close>, the two columns it reads.
\<close>

theorem merge_key_error_iff:
  "merge df term_to_obsolete term_to_merge_into issue = Inl KeyError \<longleftrightarrow>
     ''vbo_id'' \<notin> set (columns df) \<or> ''term_label'' \<notin> set (columns df)"
  by (simp add: merge_closed)

theorem merge_key_error_iff_witness:
  "''term_label'' \<notin> set (columns no_label_table) \<and>
   merge no_label_table ''VBO:0200238'' ''VBO:0200239'' 123 = Inl KeyError \<and>
   ''vbo_id'' \<in> set (columns two_column_table) \<and> ''term_label'' \<in> set (columns two_column_table) \<and>
   merge two_column_table ''VBO:0200238'' ''VBO:0200239'' 123 \<noteq> Inl KeyError"
proof -
  have a: "''term_label'' \<notin> set (columns no_label_table)"
    "''vbo_id'' \<in> set (columns two_column_table)" "''term_label'' \<in> set (columns two_column_table)"
    by (simp_all add: more_defs)
  from merge_key_error_iff[of no_label_table "''VBO:0200238''" "''VBO:0200239''" 123]
    merge_key_error_iff[of two_column_table "''VBO:0200238''" "''VBO:0200239''" 123] a
  show ?thesis
    by simp
qed

text \<open>
  C10. \<^verbatim>\<open>merge\<close> never changes its input table, nor any other object that exists before
  the call: whatever the ids and whether it returns or raises, the store after the call
  is the store before it followed by the objects the call has created.
\<close>

theorem merge_keeps_input:
  assumes "df < length h"
  shows "(\<exists>new. snd (merge_st df term_to_obsolete term_to_merge_into issue h) = h @ new) \<and>
     snd (merge_st df term_to_obsolete term_to_merge_into issue h) ! df = h ! df"
proof -
  from merge_st_frame[OF assms] obtain new
    where new: "snd (merge_st df term_to_obsolete term_to_merge_into issue h) = h @ new"
    by blast
  with assms have "snd (merge_st df term_to_obsolete term_to_merge_into issue h) ! df = h ! df"
    by (simp add: nth_append)
  with new show ?thesis
    by simp
qed

theorem merge_keeps_input_witness:
  "snd (merge_st 0 ''VBO:0200238'' ''VBO:0200239'' 123 [example_table]) ! 0 = example_table \<and>
   snd (merge_st 0 ''VBO:9999999'' ''VBO:0200239'' 123 [example_table]) ! 0 = example_table \<and>
   \<not> isl (merge example_table ''VBO:0200238'' ''VBO:0200239'' 123) \<and>
   isl (merge example_table ''VBO:9999999'' ''VBO:0200239'' 123)"
proof -
  have e: "matching example_table ''VBO:9999999'' = []"
    by (simp add: example_defs matching_def)
  have ok: "\<not> isl (merge example_table ''VBO:0200238'' ''VBO:0200239'' 123)"
    by (simp add: merge_unique[OF example_facts(1-5)])
  have bad: "isl (merge example_table ''VBO:9999999'' ''VBO:0200239'' 123)"
    using e example_facts(1,2) by (simp add: merge_closed)
  from merge_keeps_input[of 0 "[example_table]" "''VBO:0200238''" "''VBO:0200239''" 123]
    merge_keeps_input[of 0 "[example_table]" "''VBO:9999999''" "''VBO:0200239''" 123] ok bad
  show ?thesis
    by simp
qed

end
